theory Spec2Isabelle
  imports Complex_Main "HOL-Library.Sublist"
begin

section \<open>The portal state store (src/lib/store/usePortalStore.ts)\<close>

text \<open>
  The store is a zustand store whose actions are immer recipes: each action takes the
  current snapshot and yields the next one. An action is modelled as a function from
  the state to the new state; the recipe's field assignments become record updates, in
  the order of the source.
\<close>

subsection \<open>JavaScript numbers, as far as the store looks at them\<close>

text \<open>
  The store never computes with a number: it stores it, tests its truthiness
  (\<^verbatim>\<open>!x\<close>, \<^verbatim>\<open>x && ...\<close>), compares it with \<^verbatim>\<open><\<close> and with \<^verbatim>\<open>!==\<close>.
  A number is NaN, an infinity or a finite value; every finite double is a rational.
  The two zeros are one value here: they are both falsy, compare alike under
  \<^verbatim>\<open><\<close> and are equal under \<^verbatim>\<open>===\<close>.
\<close>

datatype number = NaN | NegInf | Val rat | PosInf

text \<open>ToBoolean on a number: false for 0 and NaN.\<close>

fun truthy :: "number \<Rightarrow> bool" where
  "truthy NaN = False"
| "truthy (Val r) = (r \<noteq> 0)"
| "truthy NegInf = True"
| "truthy PosInf = True"

text \<open>The operator \<^verbatim>\<open><\<close> on numbers: false as soon as one side is NaN.\<close>

fun js_lt :: "number \<Rightarrow> number \<Rightarrow> bool" where
  "js_lt NaN _ = False"
| "js_lt _ NaN = False"
| "js_lt NegInf NegInf = False"
| "js_lt NegInf _ = True"
| "js_lt (Val a) (Val b) = (a < b)"
| "js_lt (Val a) PosInf = True"
| "js_lt (Val a) NegInf = False"
| "js_lt PosInf _ = False"

text \<open>The operator \<^verbatim>\<open>!==\<close> on numbers: NaN differs from everything, itself included.\<close>

fun strict_neq :: "number \<Rightarrow> number \<Rightarrow> bool" where
  "strict_neq NaN _ = True"
| "strict_neq _ NaN = True"
| "strict_neq a b = (a \<noteq> b)"

subsection \<open>Data model\<close>

text \<open>
  Modelled from the spec: the type TokenInfo comes from the package
  @decent.xyz/box-common; the spec lists the chain identifier, the address, the
  decimals and the symbol. The store reads the address only.
\<close>

record TokenInfo =
  chainId :: int
  address :: string
  decimals :: nat
  symbol :: string

text \<open>
  Modelled from the spec: the class TokenTransactionData (classes/TokenTransactionData.ts)
  is not among the sources; it wraps a token descriptor, the amount the user entered (a
  string) and a derived USD-value string.
\<close>

record TokenTransactionData =
  token :: TokenInfo
  amount :: string
  amountUsd :: string

text \<open>
  Modelled from the spec: the class BridgeTransactionData (classes/BridgeTransactionData.ts)
  is not among the sources. Its fields are the properties the store assigns. The properties
  \<^verbatim>\<open>setApplicationFeeUsd\<close> and \<^verbatim>\<open>setGasFeeUsd\<close> are the USD equivalents of the two fees.
\<close>

record BridgeTransactionData =
  slippagePercentage :: number
  applicationFee :: number
  setApplicationFeeUsd :: number
  gasFee :: number
  setGasFeeUsd :: number
  sourceChainGasTokenUsdValue :: number
  priceImpactWarning :: "string option"
  timeWarning :: "string option"
  estimatedTxTime :: "number option"

text \<open>Modelled from the spec: the enum InputType (utils/constants.ts) has the two sides.\<close>

datatype InputType = Source | Destination

text \<open>
  The interface PortalState. The store object also carries \<^verbatim>\<open>destinationChain\<close> and
  \<^verbatim>\<open>bridgeTransaction\<close>, which the interface does not declare and no action touches.
\<close>

record PortalState =
  sourceToken :: TokenTransactionData
  destinationToken :: TokenTransactionData
  stashedToken :: "TokenTransactionData option"
  bridgeTransactionData :: BridgeTransactionData
  tokenApprovalTxHash :: "string option"
  hasUserUpdatedTokens :: bool
  lastChanged :: InputType
  nonStableSlippage :: number

subsection \<open>What the store imports\<close>

text \<open>
  The helpers, constants and constructors the store imports from files that are not among
  the sources are parameters of the model: the stable-pair classifier, the duration
  formatter, the price-impact formatter, the two slippage constants, the reset method of
  the transaction data, the default tokens, the object \<^verbatim>\<open>new BridgeTransactionData()\<close>,
  the defaults of the TokenTransactionData constructor, and the builtin \<^verbatim>\<open>Number\<close> on
  strings.
\<close>

record Imports =
  isTokenPairStable :: "string \<Rightarrow> string \<Rightarrow> bool"
  secondsToReadableTime :: "number \<Rightarrow> string"
  WARNING_PRICE_IMPACT :: "number \<Rightarrow> string"
  Number :: "string \<Rightarrow> number"
  DEFAULT_SLIPPAGE :: number
  STABLE_SWAP_SLIPPAGE :: number
  bridgeResetTransactionData :: "BridgeTransactionData \<Rightarrow> BridgeTransactionData"
  defaultBridgeSourceToken :: TokenInfo
  defaultBridgeDestinationToken :: TokenInfo
  newBridgeTransactionData :: BridgeTransactionData
  defaultAmount :: string
  defaultAmountUsd :: string

text \<open>
  Modelled from the spec: the price-impact threshold (utils/constants.ts), which the spec
  gives as 5.0.
\<close>

definition WARNING_THRESHOLD_PRICE_IMPACT :: number where
  "WARNING_THRESHOLD_PRICE_IMPACT = Val 5"

text \<open>
  Modelled from the spec: the five-minute threshold (utils/constants.ts), which the spec
  gives as 300 seconds.
\<close>

definition WARNING_THRESHOLD_FIVE_MINUTES :: number where
  "WARNING_THRESHOLD_FIVE_MINUTES = Val 300"


text \<open>
  Modelled from the spec: the constructor of TokenTransactionData takes the token and an
  optional amount; the new object carries them. An omitted amount and the USD string get
  the constructor's defaults.
\<close>

definition newTokenTransactionData ::
  "Imports \<Rightarrow> TokenInfo \<Rightarrow> string option \<Rightarrow> TokenTransactionData" where
  "newTokenTransactionData I tokenInfo amountArg =
     \<lparr>token = tokenInfo,
      amount = (case amountArg of None \<Rightarrow> defaultAmount I | Some a \<Rightarrow> a),
      amountUsd = defaultAmountUsd I\<rparr>"

text \<open>
  Modelled from the spec: the method \<^verbatim>\<open>resetSlippage\<close> of BridgeTransactionData resets
  the slippage to the default constant.
\<close>

definition bridgeResetSlippage :: "Imports \<Rightarrow> BridgeTransactionData \<Rightarrow> BridgeTransactionData" where
  "bridgeResetSlippage I b = b\<lparr>slippagePercentage := DEFAULT_SLIPPAGE I\<rparr>"

subsection \<open>The initial state\<close>

definition initialState :: "Imports \<Rightarrow> PortalState" where
  "initialState I =
     \<lparr>sourceToken = newTokenTransactionData I (defaultBridgeSourceToken I) None,
      destinationToken = newTokenTransactionData I (defaultBridgeDestinationToken I) None,
      stashedToken = None,
      bridgeTransactionData = newBridgeTransactionData I,
      tokenApprovalTxHash = None,
      hasUserUpdatedTokens = False,
      lastChanged = Source,
      nonStableSlippage = DEFAULT_SLIPPAGE I\<rparr>"

subsection \<open>The slippage helpers\<close>

definition setSlippageForStableSwap :: "Imports \<Rightarrow> PortalState \<Rightarrow> bool \<Rightarrow> PortalState" where
  "setSlippageForStableSwap I state shouldStoreSlippage =
     (let state1 =
        (if shouldStoreSlippage
         then state\<lparr>nonStableSlippage := slippagePercentage (bridgeTransactionData state)\<rparr>
         else state)
      in state1\<lparr>bridgeTransactionData :=
           (bridgeTransactionData state1)\<lparr>slippagePercentage := STABLE_SWAP_SLIPPAGE I\<rparr>\<rparr>)"

definition setSlippageForNonStableSwap :: "PortalState \<Rightarrow> PortalState" where
  "setSlippageForNonStableSwap state =
     (if truthy (nonStableSlippage state) \<and>
         strict_neq (slippagePercentage (bridgeTransactionData state)) (nonStableSlippage state)
      then state\<lparr>bridgeTransactionData :=
             (bridgeTransactionData state)\<lparr>slippagePercentage := nonStableSlippage state\<rparr>\<rparr>
      else state)"

subsection \<open>The actions\<close>

definition setStashedToken :: "TokenTransactionData option \<Rightarrow> PortalState \<Rightarrow> PortalState" where
  "setStashedToken tokenArg state = state\<lparr>stashedToken := tokenArg\<rparr>"

definition setHasUserUpdatedTokens :: "PortalState \<Rightarrow> PortalState" where
  "setHasUserUpdatedTokens state = state\<lparr>hasUserUpdatedTokens := True\<rparr>"

definition resetTransactionData :: "Imports \<Rightarrow> PortalState \<Rightarrow> PortalState" where
  "resetTransactionData I state =
     (let state1 = state\<lparr>bridgeTransactionData :=
                      bridgeResetTransactionData I (bridgeTransactionData state)\<rparr>
      in if lastChanged state1 = Source
         then state1\<lparr>destinationToken := (destinationToken state1)\<lparr>amount := ''''\<rparr>\<rparr>
         else state1\<lparr>sourceToken := (sourceToken state1)\<lparr>amount := ''''\<rparr>\<rparr>)"

definition resetTransactionDataAndAmounts :: "Imports \<Rightarrow> PortalState \<Rightarrow> PortalState" where
  "resetTransactionDataAndAmounts I state =
     (let state1 = state\<lparr>bridgeTransactionData :=
                      bridgeResetTransactionData I (bridgeTransactionData state)\<rparr>;
          state2 = state1\<lparr>sourceToken := (sourceToken state1)\<lparr>amount := ''''\<rparr>\<rparr>
      in state2\<lparr>destinationToken := (destinationToken state2)\<lparr>amount := ''''\<rparr>\<rparr>)"

definition updateTransactionData ::
  "Imports \<Rightarrow> string \<Rightarrow> string \<Rightarrow> string \<Rightarrow> string \<Rightarrow> PortalState \<Rightarrow> PortalState" where
  "updateTransactionData I sourceAmount destAmount bridgeFee gasFeeArg state =
     (let state1 =
        (if lastChanged state \<noteq> Source
         then state\<lparr>sourceToken := (sourceToken state)\<lparr>amount := sourceAmount\<rparr>\<rparr>
         else state);
          state2 = state1\<lparr>destinationToken := (destinationToken state1)\<lparr>amount := destAmount\<rparr>\<rparr>
      in state2\<lparr>bridgeTransactionData :=
           (bridgeTransactionData state2)
             \<lparr>applicationFee := Number I bridgeFee,
              setApplicationFeeUsd := Number I bridgeFee,
              gasFee := Number I gasFeeArg,
              setGasFeeUsd := Number I gasFeeArg\<rparr>\<rparr>)"

definition setSourceChainGasTokenUsdValue :: "number \<Rightarrow> PortalState \<Rightarrow> PortalState" where
  "setSourceChainGasTokenUsdValue v state =
     state\<lparr>bridgeTransactionData :=
       (bridgeTransactionData state)\<lparr>sourceChainGasTokenUsdValue := v\<rparr>\<rparr>"

definition setSlippagePercentage :: "number \<Rightarrow> PortalState \<Rightarrow> PortalState" where
  "setSlippagePercentage slippage state =
     (let state1 = state\<lparr>bridgeTransactionData :=
                      (bridgeTransactionData state)\<lparr>slippagePercentage := slippage\<rparr>\<rparr>
      in state1\<lparr>nonStableSlippage := slippage\<rparr>)"

definition resetSlippage :: "Imports \<Rightarrow> PortalState \<Rightarrow> PortalState" where
  "resetSlippage I state =
     state\<lparr>bridgeTransactionData := bridgeResetSlippage I (bridgeTransactionData state)\<rparr>"

text \<open>
  An omitted argument is \<open>None\<close>. \<^verbatim>\<open>!priceImpact\<close> holds for an omitted argument and
  for a falsy number; the comparison is reached with a truthy number only.
\<close>

definition setPriceImpactWarning :: "Imports \<Rightarrow> number option \<Rightarrow> PortalState \<Rightarrow> PortalState" where
  "setPriceImpactWarning I priceImpact state =
     (case priceImpact of
        None \<Rightarrow>
          state\<lparr>bridgeTransactionData :=
            (bridgeTransactionData state)\<lparr>priceImpactWarning := None\<rparr>\<rparr>
      | Some p \<Rightarrow>
          if \<not> truthy p \<or> js_lt p WARNING_THRESHOLD_PRICE_IMPACT
          then state\<lparr>bridgeTransactionData :=
                 (bridgeTransactionData state)\<lparr>priceImpactWarning := None\<rparr>\<rparr>
          else state\<lparr>bridgeTransactionData :=
                 (bridgeTransactionData state)
                   \<lparr>priceImpactWarning := Some (WARNING_PRICE_IMPACT I p)\<rparr>\<rparr>)"

definition setTxTimeWarning :: "Imports \<Rightarrow> number option \<Rightarrow> PortalState \<Rightarrow> PortalState" where
  "setTxTimeWarning I estimatedTxTimeArg state =
     (let state1 = state\<lparr>bridgeTransactionData :=
                      (bridgeTransactionData state)\<lparr>estimatedTxTime := estimatedTxTimeArg\<rparr>\<rparr>
      in case estimatedTxTimeArg of
           None \<Rightarrow>
             state1\<lparr>bridgeTransactionData :=
               (bridgeTransactionData state1)\<lparr>timeWarning := None\<rparr>\<rparr>
         | Some t \<Rightarrow>
             if \<not> truthy t \<or> js_lt t WARNING_THRESHOLD_FIVE_MINUTES
             then state1\<lparr>bridgeTransactionData :=
                    (bridgeTransactionData state1)\<lparr>timeWarning := None\<rparr>\<rparr>
             else (let readableTime = secondsToReadableTime I t
                   in state1\<lparr>bridgeTransactionData :=
                        (bridgeTransactionData state1)
                          \<lparr>timeWarning :=
                             Some (''The estimated waiting time to bridge is ''
                                   @ readableTime @ ''.'')\<rparr>\<rparr>))"

definition setTokenApprovalTxHash :: "string \<Rightarrow> PortalState \<Rightarrow> PortalState" where
  "setTokenApprovalTxHash txHash state = state\<lparr>tokenApprovalTxHash := Some txHash\<rparr>"

definition setSourceTokenAmount :: "string \<Rightarrow> PortalState \<Rightarrow> PortalState" where
  "setSourceTokenAmount amountArg state =
     (let state1 = state\<lparr>sourceToken := (sourceToken state)\<lparr>amount := amountArg\<rparr>\<rparr>
      in state1\<lparr>lastChanged := Source\<rparr>)"

definition setSourceTokenAmountUsd :: "string \<Rightarrow> PortalState \<Rightarrow> PortalState" where
  "setSourceTokenAmountUsd amountArg state =
     state\<lparr>sourceToken := (sourceToken state)\<lparr>amountUsd := amountArg\<rparr>\<rparr>"

definition setDestinationTokenAmount :: "string \<Rightarrow> PortalState \<Rightarrow> PortalState" where
  "setDestinationTokenAmount amountArg state =
     (let state1 = state\<lparr>destinationToken := (destinationToken state)\<lparr>amount := amountArg\<rparr>\<rparr>
      in state1\<lparr>lastChanged := Destination\<rparr>)"

definition setDestinationTokenAmountUsd :: "string \<Rightarrow> PortalState \<Rightarrow> PortalState" where
  "setDestinationTokenAmountUsd amountArg state =
     state\<lparr>destinationToken := (destinationToken state)\<lparr>amountUsd := amountArg\<rparr>\<rparr>"

definition setSourceToken :: "Imports \<Rightarrow> TokenInfo \<Rightarrow> PortalState \<Rightarrow> PortalState" where
  "setSourceToken I tokenInfo state =
     (let previousSourceTokenAddress = address (token (sourceToken state));
          state1 = state\<lparr>sourceToken :=
                     newTokenTransactionData I tokenInfo (Some (amount (sourceToken state)))\<rparr>
      in if isTokenPairStable I (address tokenInfo) (address (token (destinationToken state1)))
         then (let wasPreviousPairStable =
                     isTokenPairStable I previousSourceTokenAddress
                       (address (token (destinationToken state1)))
               in setSlippageForStableSwap I state1 (\<not> wasPreviousPairStable))
         else setSlippageForNonStableSwap state1)"

definition setDestinationToken :: "Imports \<Rightarrow> TokenInfo \<Rightarrow> PortalState \<Rightarrow> PortalState" where
  "setDestinationToken I tokenInfo state =
     (let previousDestTokenAddress = address (token (destinationToken state));
          state1 = state\<lparr>destinationToken :=
                     newTokenTransactionData I tokenInfo (Some (amount (destinationToken state)))\<rparr>
      in if isTokenPairStable I (address tokenInfo) (address (token (sourceToken state1)))
         then (let wasPreviousPairStable =
                     isTokenPairStable I previousDestTokenAddress
                       (address (token (sourceToken state1)))
               in setSlippageForStableSwap I state1 (\<not> wasPreviousPairStable))
         else setSlippageForNonStableSwap state1)"

definition swapSourceDestination :: "PortalState \<Rightarrow> PortalState" where
  "swapSourceDestination state =
     (let currentSource = sourceToken state;
          state1 = state\<lparr>sourceToken := destinationToken state\<rparr>;
          state2 = state1\<lparr>destinationToken := currentSource\<rparr>
      in state2\<lparr>hasUserUpdatedTokens := True\<rparr>)"

definition maxOutSourceToken :: "string \<Rightarrow> PortalState \<Rightarrow> PortalState" where
  "maxOutSourceToken userBalance state =
     (let state1 = state\<lparr>sourceToken := (sourceToken state)\<lparr>amount := userBalance\<rparr>\<rparr>
      in state1\<lparr>lastChanged := Source\<rparr>)"

subsection \<open>The store as a transition system\<close>

text \<open>One constructor for each member of the interface PortalActions, with its arguments.\<close>

datatype action =
    SetSourceToken TokenInfo
  | SetSourceChainGasTokenUsdValue number
  | SetSourceTokenAmount string
  | SetSourceTokenAmountUsd string
  | MaxOutSourceToken string
  | SetDestinationToken TokenInfo
  | SetDestinationTokenAmount string
  | SetDestinationTokenAmountUsd string
  | SwapSourceDestination
  | SetPriceImpactWarning "number option"
  | SetTxTimeWarning "number option"
  | SetTokenApprovalTxHash string
  | SetStashedToken "TokenTransactionData option"
  | UpdateTransactionData string string string string
  | SetSlippagePercentage number
  | ResetSlippage
  | ResetTransactionData
  | ResetTransactionDataAndAmounts
  | SetHasUserUpdatedTokens

fun dispatch :: "Imports \<Rightarrow> action \<Rightarrow> PortalState \<Rightarrow> PortalState" where
  "dispatch I (SetSourceToken t) s = setSourceToken I t s"
| "dispatch I (SetSourceChainGasTokenUsdValue v) s = setSourceChainGasTokenUsdValue v s"
| "dispatch I (SetSourceTokenAmount a) s = setSourceTokenAmount a s"
| "dispatch I (SetSourceTokenAmountUsd a) s = setSourceTokenAmountUsd a s"
| "dispatch I (MaxOutSourceToken b) s = maxOutSourceToken b s"
| "dispatch I (SetDestinationToken t) s = setDestinationToken I t s"
| "dispatch I (SetDestinationTokenAmount a) s = setDestinationTokenAmount a s"
| "dispatch I (SetDestinationTokenAmountUsd a) s = setDestinationTokenAmountUsd a s"
| "dispatch I SwapSourceDestination s = swapSourceDestination s"
| "dispatch I (SetPriceImpactWarning p) s = setPriceImpactWarning I p s"
| "dispatch I (SetTxTimeWarning t) s = setTxTimeWarning I t s"
| "dispatch I (SetTokenApprovalTxHash h) s = setTokenApprovalTxHash h s"
| "dispatch I (SetStashedToken t) s = setStashedToken t s"
| "dispatch I (UpdateTransactionData a b c d) s = updateTransactionData I a b c d s"
| "dispatch I (SetSlippagePercentage x) s = setSlippagePercentage x s"
| "dispatch I ResetSlippage s = resetSlippage I s"
| "dispatch I ResetTransactionData s = resetTransactionData I s"
| "dispatch I ResetTransactionDataAndAmounts s = resetTransactionDataAndAmounts I s"
| "dispatch I SetHasUserUpdatedTokens s = setHasUserUpdatedTokens s"

text \<open>The states the store can be in: the initial one, and every one an action leads to.\<close>

inductive reachable :: "Imports \<Rightarrow> PortalState \<Rightarrow> bool" for I :: Imports where
  reachable_init: "reachable I (initialState I)"
| reachable_step: "reachable I s \<Longrightarrow> reachable I (dispatch I a s)"

text \<open>A run of the store: the actions of a list, one after the other.\<close>

fun run :: "Imports \<Rightarrow> action list \<Rightarrow> PortalState \<Rightarrow> PortalState" where
  "run I [] s = s"
| "run I (a # as) s = run I as (dispatch I a s)"

subsection \<open>An instance of the imports, to evaluate the actions on concrete inputs\<close>

definition apeCoin :: TokenInfo where
  "apeCoin = \<lparr>chainId = 1, address = ''0xAPE'', decimals = 18, symbol = ''APE''\<rparr>"

definition apeNative :: TokenInfo where
  "apeNative = \<lparr>chainId = 33139, address = ''0x0'', decimals = 18, symbol = ''APE''\<rparr>"

definition usdc :: TokenInfo where
  "usdc = \<lparr>chainId = 1, address = ''0xUSDC'', decimals = 6, symbol = ''USDC''\<rparr>"

definition usdt :: TokenInfo where
  "usdt = \<lparr>chainId = 1, address = ''0xUSDT'', decimals = 6, symbol = ''USDT''\<rparr>"

definition dai :: TokenInfo where
  "dai = \<lparr>chainId = 1, address = ''0xDAI'', decimals = 18, symbol = ''DAI''\<rparr>"

definition weth :: TokenInfo where
  "weth = \<lparr>chainId = 1, address = ''0xWETH'', decimals = 18, symbol = ''WETH''\<rparr>"

definition exampleBridgeData :: BridgeTransactionData where
  "exampleBridgeData =
     \<lparr>slippagePercentage = Val 2, applicationFee = Val 0, setApplicationFeeUsd = Val 0,
      gasFee = Val 0, setGasFeeUsd = Val 0, sourceChainGasTokenUsdValue = Val 0,
      priceImpactWarning = None, timeWarning = None, estimatedTxTime = None\<rparr>"

definition exampleImports :: Imports where
  "exampleImports =
     \<lparr>isTokenPairStable =
        (\<lambda>a b. a \<in> set [''0xUSDC'', ''0xUSDT'', ''0xDAI'']
             \<and> b \<in> set [''0xUSDC'', ''0xUSDT'', ''0xDAI'']),
      secondsToReadableTime =
        (\<lambda>n. if n = Val 301 then ''5 minutes and 1 second'' else ''several minutes''),
      WARNING_PRICE_IMPACT =
        (\<lambda>p. if p = Val 6 then ''Price impact is 6%'' else ''Price impact is high''),
      Number =
        (\<lambda>x. if x = ''0.5'' then Val (1 / 2) else if x = ''0.1'' then Val (1 / 10) else NaN),
      DEFAULT_SLIPPAGE = Val 2,
      STABLE_SWAP_SLIPPAGE = Val (1 / 10),
      bridgeResetTransactionData =
        (\<lambda>b. b\<lparr>applicationFee := Val 0, setApplicationFeeUsd := Val 0, gasFee := Val 0,
               setGasFeeUsd := Val 0, priceImpactWarning := None, timeWarning := None,
               estimatedTxTime := None\<rparr>),
      defaultBridgeSourceToken = apeCoin,
      defaultBridgeDestinationToken = apeNative,
      newBridgeTransactionData = exampleBridgeData,
      defaultAmount = '''',
      defaultAmountUsd = ''''\<rparr>"

text \<open>
  A state the store reaches from the initial one: the slippage is set to NaN, then a
  stable pair is picked. The stable swap stores NaN as the slippage to restore.
\<close>

definition nanRestoreState :: PortalState where
  "nanRestoreState =
     setDestinationToken exampleImports usdt
       (setSourceToken exampleImports usdc
          (setSlippagePercentage NaN (initialState exampleImports)))"

text \<open>The initial state after the user has typed a destination amount.\<close>

definition destinationTypedState :: PortalState where
  "destinationTypedState = setDestinationTokenAmount ''5'' (initialState exampleImports)"

text \<open>The initial state after the user has typed a source amount.\<close>

definition sourceTypedState :: PortalState where
  "sourceTypedState = setSourceTokenAmount ''10'' (initialState exampleImports)"

text \<open>The initial state with the slippage set to 3 and USDC picked as the source.\<close>

definition slippage3State :: PortalState where
  "slippage3State =
     setSourceToken exampleImports usdc
       (setSlippagePercentage (Val 3) (initialState exampleImports))"

text \<open>The state of the spec's scenario: source amount 10 typed, then the quote applied.\<close>

definition quotedState :: PortalState where
  "quotedState =
     updateTransactionData exampleImports ''10'' ''20'' ''0.5'' ''0.1'' sourceTypedState"


text \<open>The initial state with a time warning set for an estimate of 301 seconds.\<close>

definition slowState :: PortalState where
  "slowState = setTxTimeWarning exampleImports (Some (Val 301)) (initialState exampleImports)"

text \<open>The initial state after one swap of the two slots.\<close>

definition swappedState :: PortalState where
  "swappedState = swapSourceDestination (initialState exampleImports)"

section \<open>Properties\<close>

lemmas example_defs =
  exampleImports_def exampleBridgeData_def apeCoin_def apeNative_def usdc_def usdt_def
  dai_def weth_def initialState_def newTokenTransactionData_def

lemmas action_defs =
  setStashedToken_def setHasUserUpdatedTokens_def resetTransactionData_def
  resetTransactionDataAndAmounts_def updateTransactionData_def
  setSourceChainGasTokenUsdValue_def setSlippagePercentage_def resetSlippage_def
  bridgeResetSlippage_def setPriceImpactWarning_def setTxTimeWarning_def
  setTokenApprovalTxHash_def setSourceTokenAmount_def setSourceTokenAmountUsd_def
  setDestinationTokenAmount_def setDestinationTokenAmountUsd_def setSourceToken_def
  setDestinationToken_def swapSourceDestination_def maxOutSourceToken_def
  setSlippageForStableSwap_def setSlippageForNonStableSwap_def

lemma strict_neq_truthy: "truthy n \<Longrightarrow> strict_neq m n = (m \<noteq> n)"
  by (cases m; cases n) auto

lemma not_truthy_iff: "(\<not> truthy n) = (n = NaN \<or> n = Val 0)"
  by (cases n) auto

lemma nanRestoreState_fields:
  "nonStableSlippage nanRestoreState = NaN \<and>
   slippagePercentage (bridgeTransactionData nanRestoreState) = Val (1 / 10) \<and>
   address (token (sourceToken nanRestoreState)) = ''0xUSDC'' \<and>
   address (token (destinationToken nanRestoreState)) = ''0xUSDT''"
  by (simp add: nanRestoreState_def example_defs action_defs)

lemma setSourceToken_fields:
  "slippagePercentage (bridgeTransactionData (setSourceToken I t s)) =
     (if isTokenPairStable I (address t) (address (token (destinationToken s)))
      then STABLE_SWAP_SLIPPAGE I
      else if truthy (nonStableSlippage s)
           then nonStableSlippage s
           else slippagePercentage (bridgeTransactionData s))"
  "nonStableSlippage (setSourceToken I t s) =
     (if isTokenPairStable I (address t) (address (token (destinationToken s)))
         \<and> \<not> isTokenPairStable I (address (token (sourceToken s)))
                (address (token (destinationToken s)))
      then slippagePercentage (bridgeTransactionData s)
      else nonStableSlippage s)"
  "hasUserUpdatedTokens (setSourceToken I t s) = hasUserUpdatedTokens s"
  "lastChanged (setSourceToken I t s) = lastChanged s"
  by (auto simp add: setSourceToken_def setSlippageForStableSwap_def
      setSlippageForNonStableSwap_def strict_neq_truthy Let_def)

lemma setDestinationToken_fields:
  "slippagePercentage (bridgeTransactionData (setDestinationToken I t s)) =
     (if isTokenPairStable I (address t) (address (token (sourceToken s)))
      then STABLE_SWAP_SLIPPAGE I
      else if truthy (nonStableSlippage s)
           then nonStableSlippage s
           else slippagePercentage (bridgeTransactionData s))"
  "nonStableSlippage (setDestinationToken I t s) =
     (if isTokenPairStable I (address t) (address (token (sourceToken s)))
         \<and> \<not> isTokenPairStable I (address (token (destinationToken s)))
                (address (token (sourceToken s)))
      then slippagePercentage (bridgeTransactionData s)
      else nonStableSlippage s)"
  "hasUserUpdatedTokens (setDestinationToken I t s) = hasUserUpdatedTokens s"
  "lastChanged (setDestinationToken I t s) = lastChanged s"
  by (auto simp add: setDestinationToken_def setSlippageForStableSwap_def
      setSlippageForNonStableSwap_def strict_neq_truthy Let_def)

subsection \<open>C1: slippage on a token change\<close>

text \<open>
  Counterexample to C1 as it is stated. In \<open>nanRestoreState\<close> the slippage to
  restore is NaN and the active slippage is 0.1. Picking WETH as the source makes the pair
  non-stable; NaN is nonzero and differs from 0.1, so the statement has the slippage set to
  NaN. The store leaves it at 0.1, since NaN is falsy.
\<close>

theorem setSourceToken_restore_nan_counterexample:
  "\<not> isTokenPairStable exampleImports (address weth)
       (address (token (destinationToken nanRestoreState))) \<and>
   nonStableSlippage nanRestoreState \<noteq> Val 0 \<and>
   nonStableSlippage nanRestoreState
     \<noteq> slippagePercentage (bridgeTransactionData nanRestoreState) \<and>
   slippagePercentage (bridgeTransactionData (setSourceToken exampleImports weth nanRestoreState))
     \<noteq> nonStableSlippage nanRestoreState \<and>
   slippagePercentage (bridgeTransactionData (setSourceToken exampleImports weth nanRestoreState))
     = slippagePercentage (bridgeTransactionData nanRestoreState)"
  by (simp add: setSourceToken_fields nanRestoreState_fields)
     (simp add: example_defs)

text \<open>
  C1, amended. For every state and every token \<open>t\<close>, after \<open>setSourceToken t\<close> (and in the
  same way after \<open>setDestinationToken t\<close>, with the two slots exchanged): if the new pair
  (\<open>t\<close> and the other slot's token) is stable/stable, the slippage is the stable-swap
  constant, and \<open>nonStableSlippage\<close> has taken the slippage of before the call exactly when
  the previous pair was not stable/stable (it is unchanged otherwise). If the new pair is
  not stable/stable, the slippage is set to \<open>nonStableSlippage\<close> exactly when
  \<open>nonStableSlippage\<close> is truthy (nonzero and not NaN) and differs from the current
  slippage, and is unchanged otherwise; \<open>nonStableSlippage\<close> is unchanged.
\<close>

theorem setToken_slippage:
  "(let other = address (token (destinationToken s));
        previous = address (token (sourceToken s));
        slippage = slippagePercentage (bridgeTransactionData s);
        s' = setSourceToken I t s
    in if isTokenPairStable I (address t) other
       then slippagePercentage (bridgeTransactionData s') = STABLE_SWAP_SLIPPAGE I \<and>
            nonStableSlippage s' =
              (if isTokenPairStable I previous other then nonStableSlippage s else slippage)
       else slippagePercentage (bridgeTransactionData s') =
              (if truthy (nonStableSlippage s) \<and> nonStableSlippage s \<noteq> slippage
               then nonStableSlippage s else slippage) \<and>
            nonStableSlippage s' = nonStableSlippage s) \<and>
   (let other = address (token (sourceToken s));
        previous = address (token (destinationToken s));
        slippage = slippagePercentage (bridgeTransactionData s);
        s' = setDestinationToken I t s
    in if isTokenPairStable I (address t) other
       then slippagePercentage (bridgeTransactionData s') = STABLE_SWAP_SLIPPAGE I \<and>
            nonStableSlippage s' =
              (if isTokenPairStable I previous other then nonStableSlippage s else slippage)
       else slippagePercentage (bridgeTransactionData s') =
              (if truthy (nonStableSlippage s) \<and> nonStableSlippage s \<noteq> slippage
               then nonStableSlippage s else slippage) \<and>
            nonStableSlippage s' = nonStableSlippage s)"
  by (simp add: Let_def setSourceToken_fields setDestinationToken_fields)

text \<open>
  At a concrete state: with slippage 3 and the pair USDC/APE, picking USDT as the
  destination pins the slippage to 0.1 and keeps 3 aside; picking WETH next restores 3.
\<close>

theorem setToken_slippage_witness:
  "slippagePercentage (bridgeTransactionData
     (setDestinationToken exampleImports usdt slippage3State)) = Val (1 / 10) \<and>
   nonStableSlippage (setDestinationToken exampleImports usdt slippage3State) = Val 3 \<and>
   slippagePercentage (bridgeTransactionData
     (setDestinationToken exampleImports weth
        (setDestinationToken exampleImports usdt slippage3State))) = Val 3"
  using setToken_slippage [of slippage3State exampleImports usdt]
    setToken_slippage [of "setDestinationToken exampleImports usdt slippage3State"
      exampleImports weth]
  by (simp add: slippage3State_def example_defs action_defs)

subsection \<open>C2: a fetched quote\<close>

text \<open>
  C2. For every state and all string arguments, \<open>updateTransactionData\<close> sets the
  destination amount to \<open>destAmount\<close>; it sets the source amount to \<open>sourceAmount\<close> exactly
  when \<open>lastChanged\<close> is not Source, and leaves it otherwise; the application fee and its
  USD field are the number parsed from \<open>bridgeFee\<close>, the gas fee and its USD field the
  number parsed from \<open>gasFee\<close>.
\<close>

theorem updateTransactionData_fields:
  "amount (destinationToken (updateTransactionData I sourceAmount destAmount bridgeFee fee s))
     = destAmount \<and>
   amount (sourceToken (updateTransactionData I sourceAmount destAmount bridgeFee fee s))
     = (if lastChanged s \<noteq> Source then sourceAmount else amount (sourceToken s)) \<and>
   applicationFee (bridgeTransactionData
      (updateTransactionData I sourceAmount destAmount bridgeFee fee s)) = Number I bridgeFee \<and>
   setApplicationFeeUsd (bridgeTransactionData
      (updateTransactionData I sourceAmount destAmount bridgeFee fee s)) = Number I bridgeFee \<and>
   gasFee (bridgeTransactionData
      (updateTransactionData I sourceAmount destAmount bridgeFee fee s)) = Number I fee \<and>
   setGasFeeUsd (bridgeTransactionData
      (updateTransactionData I sourceAmount destAmount bridgeFee fee s)) = Number I fee"
  by (simp add: updateTransactionData_def Let_def)

text \<open>
  The scenario of the spec: the user has typed 10 as the source amount; the quote leaves
  it, sets the destination amount to 20 and the fees to 0.5 and 0.1.
\<close>

theorem updateTransactionData_fields_witness:
  "amount (sourceToken
     (updateTransactionData exampleImports ''10'' ''20'' ''0.5'' ''0.1'' sourceTypedState))
     = ''10'' \<and>
   amount (destinationToken
     (updateTransactionData exampleImports ''10'' ''20'' ''0.5'' ''0.1'' sourceTypedState))
     = ''20'' \<and>
   applicationFee (bridgeTransactionData
     (updateTransactionData exampleImports ''10'' ''20'' ''0.5'' ''0.1'' sourceTypedState))
     = Val (1 / 2) \<and>
   gasFee (bridgeTransactionData
     (updateTransactionData exampleImports ''10'' ''20'' ''0.5'' ''0.1'' sourceTypedState))
     = Val (1 / 10)"
  using updateTransactionData_fields
    [of exampleImports "''10''" "''20''" "''0.5''" "''0.1''" sourceTypedState]
  by (simp add: sourceTypedState_def setSourceTokenAmount_def example_defs)

subsection \<open>What each action does to the two flags\<close>

lemma dispatch_lastChanged:
  "lastChanged (dispatch I act s) =
     (case act of
        SetSourceTokenAmount _ \<Rightarrow> Source
      | SetDestinationTokenAmount _ \<Rightarrow> Destination
      | MaxOutSourceToken _ \<Rightarrow> Source
      | _ \<Rightarrow> lastChanged s)"
  by (cases act)
     (simp_all add: action_defs Let_def setSourceToken_fields setDestinationToken_fields
        split: option.splits)

lemma dispatch_hasUserUpdatedTokens:
  "hasUserUpdatedTokens (dispatch I act s) =
     (case act of
        SwapSourceDestination \<Rightarrow> True
      | SetHasUserUpdatedTokens \<Rightarrow> True
      | _ \<Rightarrow> hasUserUpdatedTokens s)"
  by (cases act)
     (simp_all add: action_defs Let_def setSourceToken_fields setDestinationToken_fields
        split: option.splits)

lemma run_hasUserUpdatedTokens:
  "hasUserUpdatedTokens s \<Longrightarrow> hasUserUpdatedTokens (run I as s)"
proof (induction as arbitrary: s)
  case Nil
  then show ?case by simp
next
  case (Cons a as)
  have "hasUserUpdatedTokens (dispatch I a s)"
    using Cons.prems by (simp add: dispatch_hasUserUpdatedTokens split: action.splits)
  then show ?case
    using Cons.IH by simp
qed

subsection \<open>C3: who writes lastChanged\<close>

text \<open>
  Counterexample to C3 as it is stated: the user has typed a destination
  amount, so \<open>lastChanged\<close> is Destination. \<open>maxOutSourceToken\<close> is neither of the two
  amount setters, and it moves \<open>lastChanged\<close> to Source.
\<close>

theorem maxOutSourceToken_lastChanged_counterexample:
  "MaxOutSourceToken ''7'' \<notin> range SetSourceTokenAmount \<union> range SetDestinationTokenAmount \<and>
   lastChanged destinationTypedState = Destination \<and>
   lastChanged (dispatch exampleImports (MaxOutSourceToken ''7'') destinationTypedState)
     = Source"
  by (auto simp add: destinationTypedState_def setDestinationTokenAmount_def
      maxOutSourceToken_def Let_def)

text \<open>
  C3, amended. \<open>setSourceTokenAmount\<close> sets the source amount and sets \<open>lastChanged\<close> to
  Source, \<open>setDestinationTokenAmount\<close> sets the destination amount and sets \<open>lastChanged\<close>
  to Destination, \<open>maxOutSourceToken\<close> sets the source amount to the balance and sets
  \<open>lastChanged\<close> to Source; every action other than these three leaves \<open>lastChanged\<close>
  unchanged, for every state and input.
\<close>

theorem lastChanged_writers:
  "(amount (sourceToken (setSourceTokenAmount a s)) = a \<and>
    lastChanged (setSourceTokenAmount a s) = Source) \<and>
   (amount (destinationToken (setDestinationTokenAmount a s)) = a \<and>
    lastChanged (setDestinationTokenAmount a s) = Destination) \<and>
   (amount (sourceToken (maxOutSourceToken a s)) = a \<and>
    lastChanged (maxOutSourceToken a s) = Source) \<and>
   (act \<notin> range SetSourceTokenAmount \<union> range SetDestinationTokenAmount
            \<union> range MaxOutSourceToken
    \<longrightarrow> lastChanged (dispatch I act s) = lastChanged s)"
  by (auto simp add: dispatch_lastChanged setSourceTokenAmount_def
      setDestinationTokenAmount_def maxOutSourceToken_def Let_def split: action.splits)

theorem lastChanged_writers_witness:
  "SwapSourceDestination \<notin> range SetSourceTokenAmount \<union> range SetDestinationTokenAmount
      \<union> range MaxOutSourceToken \<and>
   lastChanged (dispatch exampleImports SwapSourceDestination destinationTypedState)
     = Destination \<and>
   lastChanged (setSourceTokenAmount ''10'' destinationTypedState) = Source \<and>
   amount (sourceToken (setSourceTokenAmount ''10'' destinationTypedState)) = ''10''"
  using lastChanged_writers
    [of "''10''" destinationTypedState SwapSourceDestination exampleImports]
  by (auto simp add: destinationTypedState_def setDestinationTokenAmount_def Let_def)

subsection \<open>C4: the two resets\<close>

text \<open>
  C4. For every state, \<open>resetTransactionData\<close> resets the bridge-transaction object (by that
  object's own reset) and empties exactly one amount: the destination amount when
  \<open>lastChanged\<close> is Source, the source amount otherwise; the other slot and the rest of the
  emptied slot stay as they are. \<open>resetTransactionDataAndAmounts\<close> does the same reset and
  empties both amounts, whatever \<open>lastChanged\<close> is. Nothing else changes.
\<close>

theorem resetTransactionData_amounts:
  "resetTransactionData I s =
     (if lastChanged s = Source
      then s\<lparr>destinationToken := (destinationToken s)\<lparr>amount := ''''\<rparr>,
             bridgeTransactionData := bridgeResetTransactionData I (bridgeTransactionData s)\<rparr>
      else s\<lparr>sourceToken := (sourceToken s)\<lparr>amount := ''''\<rparr>,
             bridgeTransactionData := bridgeResetTransactionData I (bridgeTransactionData s)\<rparr>) \<and>
   sourceToken (resetTransactionData I s) =
     (if lastChanged s = Source then sourceToken s else (sourceToken s)\<lparr>amount := ''''\<rparr>) \<and>
   destinationToken (resetTransactionData I s) =
     (if lastChanged s = Source then (destinationToken s)\<lparr>amount := ''''\<rparr>
      else destinationToken s) \<and>
   resetTransactionDataAndAmounts I s =
     s\<lparr>sourceToken := (sourceToken s)\<lparr>amount := ''''\<rparr>,
       destinationToken := (destinationToken s)\<lparr>amount := ''''\<rparr>,
       bridgeTransactionData := bridgeResetTransactionData I (bridgeTransactionData s)\<rparr>"
  by (simp add: resetTransactionData_def resetTransactionDataAndAmounts_def Let_def)

theorem resetTransactionData_amounts_witness:
  "amount (sourceToken (resetTransactionData exampleImports quotedState)) = ''10'' \<and>
   amount (destinationToken (resetTransactionData exampleImports quotedState)) = '''' \<and>
   amount (sourceToken (resetTransactionDataAndAmounts exampleImports quotedState)) = '''' \<and>
   amount (destinationToken (resetTransactionDataAndAmounts exampleImports quotedState)) = ''''"
  using resetTransactionData_amounts [of exampleImports quotedState]
  by (simp add: quotedState_def sourceTypedState_def updateTransactionData_def
      setSourceTokenAmount_def Let_def example_defs)

subsection \<open>C5: swapping the two slots\<close>

text \<open>
  C5. For every state, one \<open>swapSourceDestination\<close> exchanges the two token-data slots
  whole; two of them give the original state back, except that \<open>hasUserUpdatedTokens\<close> is
  true.
\<close>

theorem swapSourceDestination_twice:
  "swapSourceDestination (swapSourceDestination s) = s\<lparr>hasUserUpdatedTokens := True\<rparr> \<and>
   swapSourceDestination s =
     s\<lparr>sourceToken := destinationToken s, destinationToken := sourceToken s,
       hasUserUpdatedTokens := True\<rparr>"
  by (simp add: swapSourceDestination_def Let_def)

theorem swapSourceDestination_twice_witness:
  "swapSourceDestination (swapSourceDestination quotedState)
     = quotedState\<lparr>hasUserUpdatedTokens := True\<rparr> \<and>
   amount (sourceToken (swapSourceDestination quotedState)) = ''20'' \<and>
   amount (destinationToken (swapSourceDestination quotedState)) = ''10'' \<and>
   token (sourceToken (swapSourceDestination quotedState)) = apeNative"
  using swapSourceDestination_twice [of quotedState]
  by (simp add: quotedState_def sourceTypedState_def updateTransactionData_def
      setSourceTokenAmount_def swapSourceDestination_def Let_def example_defs)

subsection \<open>C6: the price-impact warning\<close>









subsection \<open>C7: the waiting-time warning\<close>

lemma setTxTimeWarning_value:
  "timeWarning (bridgeTransactionData (setTxTimeWarning I e s)) =
     (case e of
        None \<Rightarrow> None
      | Some x \<Rightarrow>
          if x = NaN \<or> js_lt x WARNING_THRESHOLD_FIVE_MINUTES then None
          else Some (''The estimated waiting time to bridge is ''
                     @ secondsToReadableTime I x @ ''.''))"
proof (cases e)
  case None
  then show ?thesis by (simp add: setTxTimeWarning_def Let_def)
next
  case (Some x)
  then show ?thesis
    by (cases x)
       (auto simp add: setTxTimeWarning_def Let_def WARNING_THRESHOLD_FIVE_MINUTES_def)
qed

lemma setTxTimeWarning_estimate:
  "estimatedTxTime (bridgeTransactionData (setTxTimeWarning I e s)) = e"
  by (cases e) (simp_all add: setTxTimeWarning_def Let_def)

lemma tx_time_below: "js_lt (Val 250) WARNING_THRESHOLD_FIVE_MINUTES"
  by (simp add: WARNING_THRESHOLD_FIVE_MINUTES_def)

lemma tx_time_above: "\<not> js_lt (Val 301) WARNING_THRESHOLD_FIVE_MINUTES"
  by (simp add: WARNING_THRESHOLD_FIVE_MINUTES_def)

lemma example_readable_time:
  "secondsToReadableTime exampleImports (Val 301) = ''5 minutes and 1 second''"
  by (simp add: exampleImports_def)

text \<open>
  Counterexample to C7 as it is stated. In \<open>slowState\<close> a time warning is set. The estimate
  NaN is present and is not below 300, so the statement has a message set; the store
  clears the message, since NaN is falsy.
\<close>

theorem setTxTimeWarning_nan_counterexample:
  "timeWarning (bridgeTransactionData slowState)
     = Some ''The estimated waiting time to bridge is 5 minutes and 1 second.'' \<and>
   Some NaN \<noteq> (None :: number option) \<and>
   \<not> js_lt NaN WARNING_THRESHOLD_FIVE_MINUTES \<and>
   timeWarning (bridgeTransactionData
     (setTxTimeWarning exampleImports (Some NaN) slowState)) = None"
  by (simp add: slowState_def setTxTimeWarning_value example_readable_time tx_time_above)

text \<open>
  C7, amended. For every state, \<open>setTxTimeWarning\<close> records the estimate it is given; it
  clears the time warning exactly when the estimate is absent, NaN, or below 300 seconds;
  otherwise the warning is the sentence that holds the readable form of the estimate. The
  input 250 clears the warning, and the input 301 sets the sentence with the readable form
  of 301 seconds.
\<close>

theorem setTxTimeWarning_warning:
  "estimatedTxTime (bridgeTransactionData (setTxTimeWarning I e s)) = e \<and>
   timeWarning (bridgeTransactionData (setTxTimeWarning I e s)) =
     (case e of
        None \<Rightarrow> None
      | Some x \<Rightarrow>
          if x = NaN \<or> js_lt x WARNING_THRESHOLD_FIVE_MINUTES then None
          else Some (''The estimated waiting time to bridge is ''
                     @ secondsToReadableTime I x @ ''.'')) \<and>
   (timeWarning (bridgeTransactionData (setTxTimeWarning I e s)) = None) =
     (case e of
        None \<Rightarrow> True
      | Some x \<Rightarrow> x = NaN \<or> js_lt x WARNING_THRESHOLD_FIVE_MINUTES) \<and>
   timeWarning (bridgeTransactionData (setTxTimeWarning I (Some (Val 250)) s)) = None \<and>
   timeWarning (bridgeTransactionData (setTxTimeWarning I (Some (Val 301)) s)) =
     Some (''The estimated waiting time to bridge is ''
           @ secondsToReadableTime I (Val 301) @ ''.'')"
  by (cases e)
     (simp_all add: setTxTimeWarning_value setTxTimeWarning_estimate tx_time_below
        tx_time_above)

theorem setTxTimeWarning_warning_witness:
  "timeWarning (bridgeTransactionData
     (setTxTimeWarning exampleImports (Some (Val 301)) (initialState exampleImports)))
     = Some ''The estimated waiting time to bridge is 5 minutes and 1 second.'' \<and>
   timeWarning (bridgeTransactionData
     (setTxTimeWarning exampleImports (Some (Val 250)) slowState)) = None \<and>
   estimatedTxTime (bridgeTransactionData
     (setTxTimeWarning exampleImports (Some (Val 250)) slowState)) = Some (Val 250)"
  using setTxTimeWarning_warning [of exampleImports "Some (Val 301)" "initialState exampleImports"]
    setTxTimeWarning_warning [of exampleImports "Some (Val 250)" slowState]
  by (simp add: example_readable_time tx_time_below tx_time_above)

subsection \<open>C8: setting the slippage by hand\<close>

text \<open>
  C8. For every state and every number \<open>x\<close>, \<open>setSlippagePercentage x\<close> applied twice gives
  the state that one application gives, and after it both the slippage and
  \<open>nonStableSlippage\<close> are \<open>x\<close>.
\<close>

theorem setSlippagePercentage_idempotent:
  "setSlippagePercentage x (setSlippagePercentage x s) = setSlippagePercentage x s \<and>
   slippagePercentage (bridgeTransactionData (setSlippagePercentage x s)) = x \<and>
   nonStableSlippage (setSlippagePercentage x s) = x"
  by (simp add: setSlippagePercentage_def Let_def)

theorem setSlippagePercentage_idempotent_witness:
  "setSlippagePercentage (Val 3) (setSlippagePercentage (Val 3) nanRestoreState)
     = setSlippagePercentage (Val 3) nanRestoreState \<and>
   slippagePercentage (bridgeTransactionData (setSlippagePercentage (Val 3) nanRestoreState))
     = Val 3 \<and>
   nonStableSlippage (setSlippagePercentage (Val 3) nanRestoreState) = Val 3"
  using setSlippagePercentage_idempotent [of "Val 3" nanRestoreState]
  by simp

subsection \<open>C9: the latch\<close>

text \<open>
  C9. \<open>setHasUserUpdatedTokens\<close> sets \<open>hasUserUpdatedTokens\<close> to true; it is false in the
  initial state; and in every state reachable from the initial one, once it is true it is
  true after any action, and so after any run of actions.
\<close>

theorem hasUserUpdatedTokens_latch:
  "hasUserUpdatedTokens (setHasUserUpdatedTokens s0) \<and>
   \<not> hasUserUpdatedTokens (initialState I) \<and>
   (reachable I s \<longrightarrow> hasUserUpdatedTokens s \<longrightarrow>
      hasUserUpdatedTokens (dispatch I act s) \<and> hasUserUpdatedTokens (run I acts s))"
proof -
  have step: "hasUserUpdatedTokens s \<Longrightarrow> hasUserUpdatedTokens (dispatch I act s)"
    by (simp add: dispatch_hasUserUpdatedTokens split: action.splits)
  show ?thesis
    using step run_hasUserUpdatedTokens [of s I acts]
    by (simp add: setHasUserUpdatedTokens_def initialState_def)
qed

theorem hasUserUpdatedTokens_latch_witness:
  "reachable exampleImports swappedState \<and>
   hasUserUpdatedTokens swappedState \<and>
   hasUserUpdatedTokens (dispatch exampleImports ResetTransactionDataAndAmounts swappedState) \<and>
   hasUserUpdatedTokens
     (run exampleImports [SetSourceToken usdc, ResetSlippage, SetStashedToken None] swappedState)"
proof -
  have r: "reachable exampleImports swappedState"
    using reachable_step [OF reachable_init, of exampleImports SwapSourceDestination]
    by (simp add: swappedState_def)
  have h: "hasUserUpdatedTokens swappedState"
    by (simp add: swappedState_def swapSourceDestination_def Let_def)
  show ?thesis
    using r h
      hasUserUpdatedTokens_latch [of swappedState exampleImports swappedState
        ResetTransactionDataAndAmounts "[SetSourceToken usdc, ResetSlippage, SetStashedToken None]"]
    by blast
qed

subsection \<open>C10: a token change leaves the two flags\<close>

text \<open>
  C10. For every state and every token \<open>t\<close>, \<open>setSourceToken t\<close> and \<open>setDestinationToken t\<close>
  leave \<open>hasUserUpdatedTokens\<close> and \<open>lastChanged\<close> as they are. \<open>swapSourceDestination\<close> and
  \<open>setHasUserUpdatedTokens\<close> make \<open>hasUserUpdatedTokens\<close> true, and every other action
  leaves it as it is.
\<close>

theorem setToken_flags:
  "hasUserUpdatedTokens (setSourceToken I t s) = hasUserUpdatedTokens s \<and>
   lastChanged (setSourceToken I t s) = lastChanged s \<and>
   hasUserUpdatedTokens (setDestinationToken I t s) = hasUserUpdatedTokens s \<and>
   lastChanged (setDestinationToken I t s) = lastChanged s \<and>
   hasUserUpdatedTokens (swapSourceDestination s) \<and>
   hasUserUpdatedTokens (setHasUserUpdatedTokens s) \<and>
   (act \<notin> {SwapSourceDestination, SetHasUserUpdatedTokens} \<longrightarrow>
      hasUserUpdatedTokens (dispatch I act s) = hasUserUpdatedTokens s)"
  by (auto simp add: setSourceToken_fields setDestinationToken_fields
      dispatch_hasUserUpdatedTokens swapSourceDestination_def setHasUserUpdatedTokens_def
      Let_def split: action.splits)

theorem setToken_flags_witness:
  "SetSourceToken usdc \<notin> {SwapSourceDestination, SetHasUserUpdatedTokens} \<and>
   \<not> hasUserUpdatedTokens (dispatch exampleImports (SetSourceToken usdc) destinationTypedState) \<and>
   \<not> hasUserUpdatedTokens (setDestinationToken exampleImports usdt destinationTypedState) \<and>
   lastChanged (setSourceToken exampleImports usdc destinationTypedState) = Destination"
  using setToken_flags [of exampleImports usdc destinationTypedState "SetSourceToken usdc"]
    setToken_flags [of exampleImports usdt destinationTypedState "SetSourceToken usdc"]
  by (simp add: destinationTypedState_def setDestinationTokenAmount_def Let_def
      initialState_def)

end
